theory Spec2Isabelle
  imports Complex_Main "HOL-Library.Multiset" "HOL-Library.Sublist" "HOL-Library.Product_Lexorder"
begin

section \<open>The idea tracker: a shallow embedding of \<open>src/idea-bot.js\<close> and \<open>src/db/schema.sql\<close>\<close>

text \<open>
  The server answers three tool calls (\<open>idea_bot_add\<close>, \<open>idea_bot_get\<close>,
  \<open>idea_artifact\<close>) by running one SQL statement each against the table
  \<open>idea_store\<close>. The model below follows the handler branch by branch. The database is a
  value that the handler receives and returns; the clock that fills \<open>CURRENT_TIMESTAMP\<close>
  is an argument.

  Scope of the model:
  \<^item> arguments carry the types the tool descriptors declare (strings and numbers); numbers
    are integers, an absent key is \<open>None\<close>;
  \<^item> text is a list of characters, one \<open>char\<close> per character, so the characters are the
    code points U+0000 to U+00FF; the driver binds a text in UTF-8, and the engine counts
    its bytes: one for a code point below 128, two from 128 on;
  \<^item> \<open>JSON.stringify\<close> is not modelled: a response carries the value that is serialised;
  \<^item> opening the database file always succeeds and the table exists.
\<close>

subsection \<open>Tool arguments\<close>

text \<open>The argument bag \<open>request.params.arguments\<close> (\<open>{}\<close> when the request has none).\<close>

record args =
  arg_project_name :: "string option"
  arg_category :: "string option"
  arg_priority_level :: "int option"
  arg_size_score :: "int option"
  arg_business_impact :: "int option"
  arg_resource_type :: "int option"
  arg_risk_level :: "int option"
  arg_project_phase :: "string option"
  arg_notes :: "string option"
  arg_project_tier :: "int option"
  arg_view_type :: "string option"

definition no_args :: args where
  "no_args = \<lparr>arg_project_name = None, arg_category = None, arg_priority_level = None,
     arg_size_score = None, arg_business_impact = None, arg_resource_type = None,
     arg_risk_level = None, arg_project_phase = None, arg_notes = None,
     arg_project_tier = None, arg_view_type = None\<rparr>"

subsection \<open>JavaScript truthiness\<close>

text \<open>\<open>x || d\<close> on a number: \<open>undefined\<close> and \<open>0\<close> are falsy.\<close>

definition or_default_num :: "int option \<Rightarrow> int \<Rightarrow> int" where
  "or_default_num x d = (case x of None \<Rightarrow> d | Some n \<Rightarrow> if n = 0 then d else n)"

text \<open>\<open>x || d\<close> on a string: \<open>undefined\<close> and the empty string are falsy.\<close>

definition or_default_str :: "string option \<Rightarrow> string \<Rightarrow> string" where
  "or_default_str x d = (case x of None \<Rightarrow> d | Some s \<Rightarrow> if s = [] then d else s)"

text \<open>The guards \<open>if (args.f)\<close> of the query builder: the value when it is truthy.\<close>

definition truthy_num :: "int option \<Rightarrow> int option" where
  "truthy_num x = (case x of None \<Rightarrow> None | Some n \<Rightarrow> if n = 0 then None else Some n)"

definition truthy_str :: "string option \<Rightarrow> string option" where
  "truthy_str x = (case x of None \<Rightarrow> None | Some s \<Rightarrow> if s = [] then None else Some s)"

text \<open>A template literal prints an absent value as \<open>undefined\<close>.\<close>

definition template_str :: "string option \<Rightarrow> string" where
  "template_str x = (case x of None \<Rightarrow> ''undefined'' | Some s \<Rightarrow> s)"

subsection \<open>The table\<close>

text \<open>
  The definitions of this subsection follow the column definitions of \<open>schema.sql\<close> line
  by line. That file names its table \<open>projects\<close>, while every statement of the handler
  names \<open>idea_store\<close>; no other declaration exists in the sources, and the data model of
  the spec lists the same columns, so the model reads \<open>schema.sql\<close> as the declaration of
  the table that the handler uses. The five scored columns are nullable in the schema; the
  handler never binds \<open>NULL\<close> to them, so a stored row holds integers there.
\<close>

record idea =
  row_id :: nat
  project_name :: string
  category :: string
  priority_level :: int
  size_score :: int
  business_impact :: int
  resource_type :: int
  risk_level :: int
  total_score :: int
  project_tier :: int
  project_phase :: string
  "notes" :: string
  created_at :: string
  updated_at :: string

text \<open>The table in rowid order, and the last id that \<open>AUTOINCREMENT\<close> handed out.\<close>

record store =
  rows :: "idea list"
  seq :: nat

definition empty_store :: store where
  "empty_store = \<lparr>rows = [], seq = 0\<rparr>"

text \<open>The values bound to the nine \<open>?\<close> of the \<open>INSERT\<close>. A bound \<open>undefined\<close> is \<open>NULL\<close>.\<close>

record insert_values =
  iv_project_name :: "string option"
  iv_category :: "string option"
  iv_priority_level :: int
  iv_size_score :: int
  iv_business_impact :: int
  iv_resource_type :: int
  iv_risk_level :: int
  iv_project_phase :: string
  iv_notes :: string

text \<open>
  The failures of a statement: a \<open>NOT NULL\<close> column bound to \<open>NULL\<close>, a violated
  \<open>CHECK\<close>, and the refusal of the \<open>LIKE\<close> operator to run a pattern that is too long.
\<close>

datatype store_error = NotNullFailed string | CheckFailed string | LikePatternTooComplex

definition between :: "int \<Rightarrow> int \<Rightarrow> int \<Rightarrow> bool" where
  "between x lo hi = (lo \<le> x \<and> x \<le> hi)"

definition phases :: "string list" where
  "phases = [''Planning'', ''In Progress'', ''On Hold'', ''Completed'']"

text \<open>The generated columns.\<close>

definition total_score_expr :: "int \<Rightarrow> int \<Rightarrow> int \<Rightarrow> int \<Rightarrow> int \<Rightarrow> int" where
  "total_score_expr p s b r k = p + s + b + r + k"

definition project_tier_expr :: "int \<Rightarrow> int \<Rightarrow> int \<Rightarrow> int \<Rightarrow> int \<Rightarrow> int" where
  "project_tier_expr p s b r k =
     (if p + s + b + r + k \<ge> 16 then 1
      else if p + s + b + r + k \<ge> 11 then 2
      else 3)"

text \<open>The \<open>CHECK\<close> constraints, in column order; the first one violated aborts the insert.\<close>

definition check_constraints :: "insert_values \<Rightarrow> store_error option" where
  "check_constraints v =
     (if \<not> between (iv_priority_level v) 1 4 then Some (CheckFailed ''priority_level'')
      else if \<not> between (iv_size_score v) 1 3 then Some (CheckFailed ''size_score'')
      else if \<not> between (iv_business_impact v) 1 4 then Some (CheckFailed ''business_impact'')
      else if \<not> between (iv_resource_type v) 1 3 then Some (CheckFailed ''resource_type'')
      else if \<not> between (iv_risk_level v) 1 3 then Some (CheckFailed ''risk_level'')
      else if iv_project_phase v \<notin> set phases then Some (CheckFailed ''project_phase'')
      else None)"

text \<open>
  The row an accepted insert stores: the id is the next one, both generated columns are
  computed from the five scored columns, both timestamps are the current time.
\<close>

definition new_row :: "string \<Rightarrow> nat \<Rightarrow> string \<Rightarrow> string \<Rightarrow> insert_values \<Rightarrow> idea" where
  "new_row now n name cat v =
     \<lparr>row_id = n,
      project_name = name,
      category = cat,
      priority_level = iv_priority_level v,
      size_score = iv_size_score v,
      business_impact = iv_business_impact v,
      resource_type = iv_resource_type v,
      risk_level = iv_risk_level v,
      total_score = total_score_expr (iv_priority_level v) (iv_size_score v)
         (iv_business_impact v) (iv_resource_type v) (iv_risk_level v),
      project_tier = project_tier_expr (iv_priority_level v) (iv_size_score v)
         (iv_business_impact v) (iv_resource_type v) (iv_risk_level v),
      project_phase = iv_project_phase v,
      notes = iv_notes v,
      created_at = now,
      updated_at = now\<rparr>"

text \<open>
  The insert: the two \<open>NOT NULL\<close> columns first, then the checks. A rejected insert
  leaves the table as it was.
\<close>

definition db_insert :: "string \<Rightarrow> store \<Rightarrow> insert_values \<Rightarrow> store_error + store" where
  "db_insert now db v =
     (case iv_project_name v of
        None \<Rightarrow> Inl (NotNullFailed ''project_name'')
      | Some name \<Rightarrow>
          (case iv_category v of
             None \<Rightarrow> Inl (NotNullFailed ''category'')
           | Some cat \<Rightarrow>
               (case check_constraints v of
                  Some e \<Rightarrow> Inl e
                | None \<Rightarrow>
                    Inr \<lparr>rows = rows db @ [new_row now (Suc (seq db)) name cat v],
                         seq = Suc (seq db)\<rparr>)))"

subsection \<open>The \<open>LIKE\<close> operator\<close>

text \<open>
  The operator of the database engine as the handler uses it (no \<open>ESCAPE\<close>, no
  \<open>case_sensitive_like\<close> pragma). The engine first refuses a pattern of more than 50000
  bytes. It then reads the pattern and the text as C strings, each up to its first U+0000,
  and compares them: \<open>%\<close> matches any run of characters, \<open>_\<close> matches one character, any
  other character matches itself up to the case of the letters A to Z.
\<close>

definition ascii_lower :: "char \<Rightarrow> char" where
  "ascii_lower c =
     (if (65::nat) \<le> of_char c \<and> of_char c \<le> (90::nat) then char_of (of_char c + (32::nat)) else c)"

text \<open>The comparison of a pattern with a text, both already cut at their first U+0000.\<close>

fun like :: "string \<Rightarrow> string \<Rightarrow> bool" where
  "like [] s = (s = [])"
| "like (p # ps) [] = (p = CHR ''%'' \<and> like ps [])"
| "like (p # ps) (c # cs) =
     (if p = CHR ''%'' then like ps (c # cs) \<or> like (p # ps) cs
      else (p = CHR ''_'' \<or> ascii_lower p = ascii_lower c) \<and> like ps cs)"

text \<open>The bytes of a text in UTF-8.\<close>

definition utf8_length :: "string \<Rightarrow> int" where
  "utf8_length s = sum_list (map (\<lambda>c. if (of_char c :: nat) < 128 then 1 else 2) s)"

text \<open>A text read as a C string: the characters before its first U+0000.\<close>

definition c_string :: "string \<Rightarrow> string" where
  "c_string s = takeWhile (\<lambda>c. c \<noteq> CHR 0x00) s"

definition pattern_too_complex :: "string \<Rightarrow> bool" where
  "pattern_too_complex pat = (utf8_length pat > 50000)"

text \<open>One evaluation of \<open>text LIKE pattern\<close>.\<close>

definition like_operator :: "string \<Rightarrow> string \<Rightarrow> store_error + bool" where
  "like_operator pat txt =
     (if pattern_too_complex pat then Inl LikePatternTooComplex
      else Inr (like (c_string pat) (c_string txt)))"


subsection \<open>The two queries\<close>

text \<open>
  \<open>idea_bot_get\<close> builds \<open>SELECT * FROM idea_store WHERE 1=1\<close> and appends one
  \<open>AND\<close> per truthy argument, the \<open>LIKE\<close> on the project name first. The engine walks
  the table in rowid order and evaluates the terms on each row in that order; a term that
  fails aborts the statement.
\<close>

text \<open>The three terms that compare with \<open>=\<close>.\<close>

definition other_filters :: "args \<Rightarrow> idea \<Rightarrow> bool" where
  "other_filters a r =
     ((case truthy_str (arg_category a) of
         None \<Rightarrow> True
       | Some c \<Rightarrow> category r = c) \<and>
      (case truthy_num (arg_project_tier a) of
         None \<Rightarrow> True
       | Some t \<Rightarrow> project_tier r = t) \<and>
      (case truthy_str (arg_project_phase a) of
         None \<Rightarrow> True
       | Some ph \<Rightarrow> project_phase r = ph))"

text \<open>The \<open>WHERE\<close> clause on one row.\<close>

definition where_row :: "args \<Rightarrow> idea \<Rightarrow> store_error + bool" where
  "where_row a r =
     (case truthy_str (arg_project_name a) of
        None \<Rightarrow> Inr (other_filters a r)
      | Some n \<Rightarrow>
          (case like_operator (''%'' @ n @ ''%'') (project_name r) of
             Inl e \<Rightarrow> Inl e
           | Inr m \<Rightarrow> Inr (m \<and> other_filters a r)))"

fun select_rows :: "args \<Rightarrow> idea list \<Rightarrow> store_error + idea list" where
  "select_rows a [] = Inr []"
| "select_rows a (r # rs) =
     (case where_row a r of
        Inl e \<Rightarrow> Inl e
      | Inr keep \<Rightarrow>
          (case select_rows a rs of
             Inl e \<Rightarrow> Inl e
           | Inr xs \<Rightarrow> Inr (if keep then r # xs else xs)))"

definition select_where :: "store \<Rightarrow> args \<Rightarrow> store_error + idea list" where
  "select_where db a = select_rows a (rows db)"

text \<open>
  \<open>idea_artifact\<close> runs \<open>SELECT * FROM idea_store ORDER BY priority_level DESC,
  total_score DESC\<close>. Rows that agree on both keys stay in rowid order.
\<close>

definition order_key :: "idea \<Rightarrow> int \<times> int" where
  "order_key r = (- priority_level r, - total_score r)"

definition select_ordered :: "store \<Rightarrow> idea list" where
  "select_ordered db = sort_key order_key (rows db)"

subsection \<open>The request handler\<close>

record visualization_instructions =
  vi_type :: "string option"
  vi_style :: string
  vi_elements :: "string list"

text \<open>
  What \<open>content[0].text\<close> holds: a plain text, the text \<open>Error: \<close> followed by the
  message of the exception that was caught (the wording is the driver's; the model keeps the
  failure it reports), the rows of \<open>idea_bot_get\<close>, or the object of \<open>idea_artifact\<close>.
\<close>

datatype payload =
  Text string
| ErrorText store_error
| Ideas "idea list"
| Artifact "idea list" visualization_instructions

record response =
  content :: payload
  isError :: bool

definition insert_values_of :: "args \<Rightarrow> insert_values" where
  "insert_values_of a =
     \<lparr>iv_project_name = arg_project_name a,
      iv_category = arg_category a,
      iv_priority_level = or_default_num (arg_priority_level a) 1,
      iv_size_score = or_default_num (arg_size_score a) 1,
      iv_business_impact = or_default_num (arg_business_impact a) 1,
      iv_resource_type = or_default_num (arg_resource_type a) 1,
      iv_risk_level = or_default_num (arg_risk_level a) 1,
      iv_project_phase = or_default_str (arg_project_phase a) ''Planning'',
      iv_notes = or_default_str (arg_notes a) []\<rparr>"

definition handler :: "string \<Rightarrow> store \<Rightarrow> string \<Rightarrow> args \<Rightarrow> response \<times> store" where
  "handler now db name a =
     (if name = ''idea_bot_add'' then
        (case db_insert now db (insert_values_of a) of
           Inl e \<Rightarrow>
             (\<lparr>content = ErrorText e, isError = True\<rparr>, db)
         | Inr db' \<Rightarrow>
             (\<lparr>content = Text (''Added project '' @ [CHR 0x22] @ template_str (arg_project_name a)
                  @ [CHR 0x22] @ '' to database''),
               isError = False\<rparr>, db'))
      else if name = ''idea_bot_get'' then
        (case select_where db a of
           Inl e \<Rightarrow> (\<lparr>content = ErrorText e, isError = True\<rparr>, db)
         | Inr ideas \<Rightarrow> (\<lparr>content = Ideas ideas, isError = False\<rparr>, db))
      else if name = ''idea_artifact'' then
        (\<lparr>content = Artifact (select_ordered db)
            \<lparr>vi_type = arg_view_type a,
             vi_style = ''futuristic-neon'',
             vi_elements = [''hexagonal-grid'', ''priority-matrix'', ''pipeline-view'',
               ''risk-heatmap'', ''resource-allocation'']\<rparr>,
          isError = False\<rparr>, db)
      else
        (\<lparr>content = Text (''Unknown tool: '' @ name), isError = True\<rparr>, db))"

text \<open>The stores the server can produce: the empty table, and whatever a call leaves.\<close>

inductive reachable :: "store \<Rightarrow> bool" where
  reachable_empty: "reachable empty_store"
| reachable_step: "reachable db \<Longrightarrow> reachable (snd (handler now db name a))"

subsection \<open>The dashboard summary\<close>

text \<open>
  \<open>generateDashboard\<close> is defined in the source and called from nowhere. Its numbers are
  JavaScript numbers: a division never raises, \<open>0 / 0\<close> is \<open>NaN\<close> and \<open>x / 0\<close> is an
  infinity. A division by a number other than 0 yields the double nearest to the exact
  quotient; \<open>Rounded q\<close> stands for the double nearest to the rational \<open>q\<close>, and the
  rounding itself is not computed. Whole numbers below \<open>2 ^ 53\<close> and their sums are exact
  in a double; the scores of the table are far below.
\<close>

datatype js_number = Rounded rat | NaN | PosInfinity | NegInfinity

definition js_div :: "int \<Rightarrow> nat \<Rightarrow> js_number" where
  "js_div x n =
     (if n = 0 then (if x = 0 then NaN else if x > 0 then PosInfinity else NegInfinity)
      else Rounded (of_int x / of_nat n))"

record summary =
  total_count :: nat
  high_priority_count :: nat
  average_score :: js_number

record priority_project =
  pp_name :: string
  pp_score :: int
  pp_category :: string
  pp_phase :: string
  pp_impact :: int
  pp_risk :: int

text \<open>
  The accumulator of the two breakdowns is a plain object, so a key that names a member of
  \<open>Object.prototype\<close> is not absent at first. For such a key \<open>acc[k]\<close> is a function,
  \<open>(acc[k] || 0) + 1\<close> is the text of the function followed by \<open>1\<close>, and every later
  row appends one more \<open>1\<close>. The key \<open>__proto__\<close> is an accessor whose setter ignores a
  text: an assignment to it stores nothing.
\<close>

datatype tally =
  Count nat
| MemberText string nat

definition object_prototype_members :: "string list" where
  "object_prototype_members =
     [''constructor'', ''__defineGetter__'', ''__defineSetter__'', ''hasOwnProperty'',
      ''__lookupGetter__'', ''__lookupSetter__'', ''isPrototypeOf'', ''propertyIsEnumerable'',
      ''toString'', ''valueOf'', ''toLocaleString'']"

record dashboard =
  d_summary :: summary
  d_categories :: "string \<rightharpoonup> tally"
  d_phases :: "string \<rightharpoonup> tally"
  d_priority_projects :: "priority_project list"
  d_risk_levels :: "nat \<times> nat \<times> nat"
  d_resource_types :: "nat \<times> nat \<times> nat"

text \<open>
  \<open>acc[k] = (acc[k] || 0) + 1\<close>. \<open>Count c\<close> is the number \<open>c\<close>; \<open>MemberText m n\<close> is
  the text of the inherited member \<open>m\<close> followed by \<open>n\<close> digits 1.
\<close>

definition count_key :: "(string \<rightharpoonup> tally) \<Rightarrow> string \<Rightarrow> (string \<rightharpoonup> tally)" where
  "count_key acc k =
     (if k = ''__proto__'' then acc
      else
        (case acc k of
           None \<Rightarrow>
             if k \<in> set object_prototype_members then acc(k \<mapsto> MemberText k 1)
             else acc(k \<mapsto> Count 1)
         | Some (Count c) \<Rightarrow> acc(k \<mapsto> Count (c + 1))
         | Some (MemberText m n) \<Rightarrow> acc(k \<mapsto> MemberText m (n + 1))))"

definition generateDashboard :: "idea list \<Rightarrow> string option \<Rightarrow> dashboard" where
  "generateDashboard ideas viewType =
     \<lparr>d_summary =
        \<lparr>total_count = length ideas,
         high_priority_count = length (filter (\<lambda>p. priority_level p \<ge> 3) ideas),
         average_score = js_div (foldl (\<lambda>sum p. sum + total_score p) 0 ideas) (length ideas)\<rparr>,
      d_categories = foldl (\<lambda>acc p. count_key acc (category p)) Map.empty ideas,
      d_phases = foldl (\<lambda>acc p. count_key acc (project_phase p)) Map.empty ideas,
      d_priority_projects =
        map (\<lambda>p. \<lparr>pp_name = project_name p, pp_score = total_score p, pp_category = category p,
                   pp_phase = project_phase p, pp_impact = business_impact p,
                   pp_risk = risk_level p\<rparr>)
          (sort_key (\<lambda>p. - total_score p) (filter (\<lambda>p. priority_level p \<ge> 3) ideas)),
      d_risk_levels =
        (length (filter (\<lambda>p. risk_level p = 3) ideas),
         length (filter (\<lambda>p. risk_level p = 2) ideas),
         length (filter (\<lambda>p. risk_level p = 1) ideas)),
      d_resource_types =
        (length (filter (\<lambda>p. resource_type p = 1) ideas),
         length (filter (\<lambda>p. resource_type p = 2) ideas),
         length (filter (\<lambda>p. resource_type p = 3) ideas))\<rparr>"

subsection \<open>Vocabulary of the properties\<close>

text \<open>What the schema promises of a stored row: the generated columns and the checks.\<close>

definition row_ok :: "idea \<Rightarrow> bool" where
  "row_ok r =
     (total_score r =
        priority_level r + size_score r + business_impact r + resource_type r + risk_level r \<and>
      project_tier r = (if total_score r \<ge> 16 then 1 else if total_score r \<ge> 11 then 2 else 3) \<and>
      between (priority_level r) 1 4 \<and> between (size_score r) 1 3 \<and>
      between (business_impact r) 1 4 \<and> between (resource_type r) 1 3 \<and>
      between (risk_level r) 1 3 \<and> project_phase r \<in> set phases)"

text \<open>An optional scored argument is valid when it is absent or within its range.\<close>

definition in_range :: "int option \<Rightarrow> int \<Rightarrow> int \<Rightarrow> bool" where
  "in_range x lo hi = (case x of None \<Rightarrow> True | Some n \<Rightarrow> between n lo hi)"

text \<open>
  The valid inputs of \<open>idea_bot_add\<close> as the spec lists them: both names present and not
  empty, every scored field absent or within its range, the phase absent or one of the four.
\<close>

definition valid_add :: "args \<Rightarrow> bool" where
  "valid_add a =
     ((case arg_project_name a of None \<Rightarrow> False | Some n \<Rightarrow> n \<noteq> []) \<and>
      (case arg_category a of None \<Rightarrow> False | Some c \<Rightarrow> c \<noteq> []) \<and>
      in_range (arg_priority_level a) 1 4 \<and>
      in_range (arg_size_score a) 1 3 \<and>
      in_range (arg_business_impact a) 1 4 \<and>
      in_range (arg_resource_type a) 1 3 \<and>
      in_range (arg_risk_level a) 1 3 \<and>
      (case arg_project_phase a of None \<Rightarrow> True | Some ph \<Rightarrow> ph \<in> set phases))"

text \<open>The spec's defaulting: the documented default stands in for an omitted field.\<close>

definition with_default :: "'a option \<Rightarrow> 'a \<Rightarrow> 'a" where
  "with_default x d = (case x of None \<Rightarrow> d | Some v \<Rightarrow> v)"

text \<open>A scored argument that is present, not zero and outside its range.\<close>

definition rejected_score :: "int option \<Rightarrow> int \<Rightarrow> int \<Rightarrow> bool" where
  "rejected_score x lo hi =
     (case x of None \<Rightarrow> False | Some n \<Rightarrow> n \<noteq> 0 \<and> \<not> between n lo hi)"

text \<open>The records a response carries.\<close>

definition response_rows :: "response \<Rightarrow> idea list" where
  "response_rows r = (case content r of
        Text _ \<Rightarrow> [] | ErrorText _ \<Rightarrow> [] | Ideas xs \<Rightarrow> xs | Artifact xs _ \<Rightarrow> xs)"

text \<open>The view type a response names.\<close>

definition response_view_type :: "response \<Rightarrow> string option" where
  "response_view_type r =
     (case content r of
        Text _ \<Rightarrow> None | ErrorText _ \<Rightarrow> None | Ideas _ \<Rightarrow> None
      | Artifact _ vi \<Rightarrow> vi_type vi)"

text \<open>
  The \<open>WHERE\<close> clause as a truth value, for a statement in which no term fails: the
  \<open>LIKE\<close> on the two C strings and the three other terms.
\<close>

definition where_clause :: "args \<Rightarrow> idea \<Rightarrow> bool" where
  "where_clause a r =
     ((case truthy_str (arg_project_name a) of
         None \<Rightarrow> True
       | Some n \<Rightarrow> like (c_string (''%'' @ n @ ''%'')) (c_string (project_name r))) \<and>
      other_filters a r)"

text \<open>
  The name filter of a get, if it has one, gives a pattern within the limit of the
  engine: at most 49998 bytes between the two \<open>%\<close>.
\<close>

definition name_filter_within_limit :: "args \<Rightarrow> bool" where
  "name_filter_within_limit a =
     (case truthy_str (arg_project_name a) of None \<Rightarrow> True | Some n \<Rightarrow> utf8_length n \<le> 49998)"

text \<open>A query that filters on the project name alone.\<close>

definition by_name :: "string \<Rightarrow> args" where
  "by_name n = no_args\<lparr>arg_project_name := Some n\<rparr>"

text \<open>The order of \<open>ORDER BY priority_level DESC, total_score DESC\<close> between two rows.\<close>

definition ordered_before :: "idea \<Rightarrow> idea \<Rightarrow> bool" where
  "ordered_before x y =
     (priority_level x > priority_level y \<or>
      (priority_level x = priority_level y \<and> total_score x \<ge> total_score y))"

subsection \<open>Sample data\<close>

definition apple_args :: args where
  "apple_args = no_args\<lparr>arg_project_name := Some ''Apple'', arg_category := Some ''fruit'',
     arg_priority_level := Some 4, arg_size_score := Some 3, arg_business_impact := Some 4,
     arg_resource_type := Some 3, arg_risk_level := Some 3\<rparr>"

definition apple_row :: "nat \<Rightarrow> idea" where
  "apple_row n = \<lparr>row_id = n, project_name = ''Apple'', category = ''fruit'', priority_level = 4,
     size_score = 3, business_impact = 4, resource_type = 3, risk_level = 3, total_score = 17,
     project_tier = 1, project_phase = ''Planning'', notes = [], created_at = ''t0'',
     updated_at = ''t0''\<rparr>"

definition apple_store :: store where
  "apple_store = \<lparr>rows = [apple_row 1], seq = 1\<rparr>"

definition pear_args :: args where
  "pear_args = no_args\<lparr>arg_project_name := Some ''pear'', arg_category := Some ''fruit''\<rparr>"

definition pear_row :: "nat \<Rightarrow> idea" where
  "pear_row n = \<lparr>row_id = n, project_name = ''pear'', category = ''fruit'', priority_level = 1,
     size_score = 1, business_impact = 1, resource_type = 1, risk_level = 1, total_score = 5,
     project_tier = 3, project_phase = ''Planning'', notes = [], created_at = ''t0'',
     updated_at = ''t0''\<rparr>"

definition mixed_store :: store where
  "mixed_store = \<lparr>rows = [pear_row 1, apple_row 2], seq = 2\<rparr>"

section \<open>Lemmas\<close>

subsection \<open>The \<open>LIKE\<close> operator as a substring test\<close>

lemma like_pct_iff: "like (CHR ''%'' # p) s \<longleftrightarrow> (\<exists>u t. s = u @ t \<and> like p t)"
proof (induction s)
  case Nil
  show ?case by simp
next
  case (Cons c cs)
  show ?case by (auto simp: Cons Cons_eq_append_conv)
qed

lemma like_pct_intro: "like p s \<Longrightarrow> like (CHR ''%'' # p) s"
  by (cases s) simp_all

lemma like_append: "like (p @ q) s \<longleftrightarrow> (\<exists>a b. s = a @ b \<and> like p a \<and> like q b)"
proof (induction p s rule: like.induct)
  case (1 s)
  show ?case by simp
next
  case (2 p ps)
  then show ?case by simp
next
  case (3 p ps c cs)
  show ?case
  proof (cases "p = CHR ''%''")
    case True
    have "like ((p # ps) @ q) (c # cs) \<longleftrightarrow> like (ps @ q) (c # cs) \<or> like ((p # ps) @ q) cs"
      using True by simp
    also have "\<dots> \<longleftrightarrow> (\<exists>a b. c # cs = a @ b \<and> like ps a \<and> like q b) \<or>
        (\<exists>a b. cs = a @ b \<and> like (p # ps) a \<and> like q b)"
      using 3 True by simp
    also have "\<dots> \<longleftrightarrow> (\<exists>a b. c # cs = a @ b \<and> like (p # ps) a \<and> like q b)"
      (is "?L \<longleftrightarrow> ?R")
    proof
      assume ?L
      then show ?R
      proof
        assume "\<exists>a b. c # cs = a @ b \<and> like ps a \<and> like q b"
        then obtain a b where "c # cs = a @ b" "like ps a" "like q b" by blast
        moreover from this have "like (p # ps) a" using True by (simp add: like_pct_intro)
        ultimately show ?R by blast
      next
        assume "\<exists>a b. cs = a @ b \<and> like (p # ps) a \<and> like q b"
        then obtain a b where "cs = a @ b" "like (p # ps) a" "like q b" by blast
        then have "c # cs = (c # a) @ b" "like (p # ps) (c # a)" using True by simp_all
        with \<open>like q b\<close> show ?R by blast
      qed
    next
      assume ?R
      then obtain a b where ab: "c # cs = a @ b" "like (p # ps) a" "like q b" by blast
      show ?L
      proof (cases a)
        case Nil
        with ab True have "c # cs = [] @ b" "like ps []" by simp_all
        with ab(3) show ?thesis by blast
      next
        case (Cons x a')
        with ab have cs: "cs = a' @ b" and x: "x = c" by simp_all
        from ab(2) Cons x True have "like ps (c # a') \<or> like (p # ps) a'" by simp
        then show ?thesis
        proof
          assume "like ps (c # a')"
          moreover have "c # cs = (c # a') @ b" using cs by simp
          ultimately show ?thesis using ab(3) by blast
        next
          assume "like (p # ps) a'"
          with cs ab(3) show ?thesis by blast
        qed
      qed
    qed
    finally show ?thesis .
  next
    case False
    let ?m = "p = CHR ''_'' \<or> ascii_lower p = ascii_lower c"
    have "like ((p # ps) @ q) (c # cs) \<longleftrightarrow> ?m \<and> like (ps @ q) cs"
      using False by simp
    also have "\<dots> \<longleftrightarrow> ?m \<and> (\<exists>a b. cs = a @ b \<and> like ps a \<and> like q b)"
      using 3 False by simp
    also have "\<dots> \<longleftrightarrow> (\<exists>a b. c # cs = a @ b \<and> like (p # ps) a \<and> like q b)"
      (is "?L \<longleftrightarrow> ?R")
    proof
      assume ?L
      then obtain a b where "?m" "cs = a @ b" "like ps a" "like q b" by blast
      then have "c # cs = (c # a) @ b" "like (p # ps) (c # a)" using False by simp_all
      with \<open>like q b\<close> show ?R by blast
    next
      assume ?R
      then obtain a b where ab: "c # cs = a @ b" "like (p # ps) a" "like q b" by blast
      from ab(2) False obtain x a' where a: "a = x # a'" by (cases a) simp_all
      with ab have "cs = a' @ b" "x = c" by simp_all
      moreover from this ab(2) a False have "?m" "like ps a'" by simp_all
      ultimately show ?L using ab(3) by blast
    qed
    finally show ?thesis .
  qed
qed

lemma like_all: "like ''%'' s"
  by (induction s) auto


lemma like_refl: "like s s"
  by (induction s) (auto simp: like_pct_intro)

lemma like_contains:
  "like (''%'' @ f @ ''%'') s \<longleftrightarrow> (\<exists>u a b. s = u @ a @ b \<and> like f a)"
proof -
  have "like (''%'' @ f @ ''%'') s \<longleftrightarrow> (\<exists>u t. s = u @ t \<and> (\<exists>a b. t = a @ b \<and> like f a))"
    by (simp add: like_pct_iff like_append like_all)
  also have "\<dots> \<longleftrightarrow> (\<exists>u a b. s = u @ a @ b \<and> like f a)"
    by blast
  finally show ?thesis .
qed



lemma like_self: "like (''%'' @ n @ ''%'') n"
  unfolding like_contains using like_refl [of n] by (metis append_Nil append_Nil2)

subsection \<open>C strings and byte counts\<close>

lemma c_string_id: "CHR 0x00 \<notin> set s \<Longrightarrow> c_string s = s"
  by (induction s) (auto simp: c_string_def)

lemma c_string_pattern:
  "c_string (''%'' @ n @ ''%'') =
     (if CHR 0x00 \<in> set n then CHR ''%'' # c_string n else ''%'' @ n @ ''%'')"
proof (cases "CHR 0x00 \<in> set n")
  case True
  then have "takeWhile (\<lambda>c. c \<noteq> CHR 0x00) (n @ ''%'') = takeWhile (\<lambda>c. c \<noteq> CHR 0x00) n"
    by (intro takeWhile_append1 [of "CHR 0x00"]) simp_all
  with True show ?thesis by (simp add: c_string_def)
next
  case False
  then have "c_string (''%'' @ n @ ''%'') = ''%'' @ n @ ''%''"
    by (intro c_string_id) simp
  with False show ?thesis by simp
qed

text \<open>A name matches the pattern made of it, whatever its characters.\<close>

lemma like_self_c_string: "like (c_string (''%'' @ n @ ''%'')) (c_string n)"
proof (cases "CHR 0x00 \<in> set n")
  case True
  then show ?thesis
    by (simp only: c_string_pattern if_True like_pct_intro [OF like_refl])
next
  case False
  then have "c_string n = n" by (rule c_string_id)
  with False like_self [of n] show ?thesis by (simp only: c_string_pattern if_False)
qed

lemma utf8_length_pattern: "utf8_length (CHR ''%'' # n @ ''%'') = utf8_length n + 2"
  by (simp add: utf8_length_def)

subsection \<open>A get in which no term fails\<close>

lemma where_row_within_limit:
  "name_filter_within_limit a \<Longrightarrow> where_row a r = Inr (where_clause a r)"
  by (auto simp: name_filter_within_limit_def where_row_def where_clause_def like_operator_def
      pattern_too_complex_def utf8_length_pattern split: option.splits)

lemma select_rows_within_limit:
  "name_filter_within_limit a \<Longrightarrow> select_rows a rs = Inr (filter (where_clause a) rs)"
  by (induction rs) (simp_all add: where_row_within_limit)

text \<open>The rows selected depend on the arguments through the clause on one row only.\<close>

lemma select_rows_cong: "where_row a = where_row b \<Longrightarrow> select_rows a rs = select_rows b rs"
  by (induction rs) (simp_all split: sum.splits)

lemma where_row_cong:
  assumes "truthy_str (arg_project_name a) = truthy_str (arg_project_name b)"
    and "other_filters a = other_filters b"
  shows "where_row a = where_row b"
proof (rule ext)
  fix r
  show "where_row a r = where_row b r"
    unfolding where_row_def assms by (rule refl)
qed

lemma where_row_tier_zero:
  "where_row (a\<lparr>arg_project_tier := Some 0\<rparr>) = where_row (a\<lparr>arg_project_tier := None\<rparr>)"
proof (rule where_row_cong)
  show "other_filters (a\<lparr>arg_project_tier := Some 0\<rparr>) = other_filters (a\<lparr>arg_project_tier := None\<rparr>)"
    by (rule ext) (simp add: other_filters_def truthy_num_def)
qed simp

subsection \<open>The handler, branch by branch\<close>

lemma handler_get:
  "handler now db ''idea_bot_get'' a =
     (case select_where db a of
        Inl e \<Rightarrow> (\<lparr>content = ErrorText e, isError = True\<rparr>, db)
      | Inr ideas \<Rightarrow> (\<lparr>content = Ideas ideas, isError = False\<rparr>, db))"
  by (simp add: handler_def)

lemma handler_get_within_limit:
  "name_filter_within_limit a \<Longrightarrow>
     handler now db ''idea_bot_get'' a =
       (\<lparr>content = Ideas (filter (where_clause a) (rows db)), isError = False\<rparr>, db)"
  by (simp add: handler_get select_where_def select_rows_within_limit)

text \<open>A name filter beyond the limit fails the get as soon as the table has a row.\<close>

lemma handler_get_pattern_too_long:
  assumes "truthy_str (arg_project_name a) = Some n" and "utf8_length n > 49998"
    and "rows db \<noteq> []"
  shows "handler now db ''idea_bot_get'' a =
    (\<lparr>content = ErrorText LikePatternTooComplex, isError = True\<rparr>, db)"
proof -
  from assms(3) obtain r rs where "rows db = r # rs" by (cases "rows db") auto
  moreover have "where_row a r = Inl LikePatternTooComplex"
    using assms(1,2)
    by (simp add: where_row_def like_operator_def pattern_too_complex_def utf8_length_pattern)
  ultimately show ?thesis by (simp add: handler_get select_where_def)
qed

lemma handler_get_cong:
  "where_row a = where_row b \<Longrightarrow>
     handler now db ''idea_bot_get'' a = handler now db ''idea_bot_get'' b"
  by (simp add: handler_get select_where_def select_rows_cong [of a b])

lemma handler_artifact:
  "handler now db ''idea_artifact'' a =
     (\<lparr>content = Artifact (select_ordered db)
         \<lparr>vi_type = arg_view_type a, vi_style = ''futuristic-neon'',
          vi_elements = [''hexagonal-grid'', ''priority-matrix'', ''pipeline-view'',
            ''risk-heatmap'', ''resource-allocation'']\<rparr>,
       isError = False\<rparr>, db)"
  by (simp add: handler_def)

lemma handler_add:
  "handler now db ''idea_bot_add'' a =
     (case db_insert now db (insert_values_of a) of
        Inl e \<Rightarrow> (\<lparr>content = ErrorText e, isError = True\<rparr>, db)
      | Inr db' \<Rightarrow>
          (\<lparr>content = Text (''Added project '' @ [CHR 0x22] @ template_str (arg_project_name a)
               @ [CHR 0x22] @ '' to database''), isError = False\<rparr>, db'))"
  by (simp add: handler_def)

lemma handler_store:
  "snd (handler now db name a) = db \<or>
   (name = ''idea_bot_add'' \<and> db_insert now db (insert_values_of a) = Inr (snd (handler now db name a)))"
  by (simp add: handler_def split: sum.splits)

subsection \<open>What an insert stores\<close>

lemma check_constraints_None:
  "check_constraints v = None \<longleftrightarrow>
     between (iv_priority_level v) 1 4 \<and> between (iv_size_score v) 1 3 \<and>
     between (iv_business_impact v) 1 4 \<and> between (iv_resource_type v) 1 3 \<and>
     between (iv_risk_level v) 1 3 \<and> iv_project_phase v \<in> set phases"
  by (simp add: check_constraints_def)

lemma new_row_ok: "check_constraints v = None \<Longrightarrow> row_ok (new_row now n name cat v)"
  by (simp add: check_constraints_None row_ok_def new_row_def total_score_expr_def project_tier_expr_def)

lemma db_insert_Inr:
  "db_insert now db v = Inr db' \<Longrightarrow>
     \<exists>name cat. iv_project_name v = Some name \<and> iv_category v = Some cat \<and> check_constraints v = None \<and>
       db' = \<lparr>rows = rows db @ [new_row now (Suc (seq db)) name cat v], seq = Suc (seq db)\<rparr>"
  by (auto simp: db_insert_def split: option.splits)

lemma db_insert_accepts:
  "iv_project_name v = Some name \<Longrightarrow> iv_category v = Some cat \<Longrightarrow> check_constraints v = None \<Longrightarrow>
     db_insert now db v = Inr \<lparr>rows = rows db @ [new_row now (Suc (seq db)) name cat v], seq = Suc (seq db)\<rparr>"
  by (simp add: db_insert_def)

lemma reachable_rows_ok: "reachable db \<Longrightarrow> r \<in> set (rows db) \<Longrightarrow> row_ok r"
proof (induction arbitrary: r rule: reachable.induct)
  case reachable_empty
  then show ?case by (simp add: empty_store_def)
next
  case (reachable_step db now name a)
  from handler_store [of now db name a] show ?case
  proof
    assume "snd (handler now db name a) = db"
    with reachable_step show ?thesis by simp
  next
    assume "name = ''idea_bot_add'' \<and> db_insert now db (insert_values_of a) = Inr (snd (handler now db name a))"
    then obtain nm cat where ok: "check_constraints (insert_values_of a) = None"
      and "snd (handler now db name a) = \<lparr>rows = rows db @ [new_row now (Suc (seq db)) nm cat (insert_values_of a)], seq = Suc (seq db)\<rparr>"
      using db_insert_Inr by blast
    with reachable_step.prems have "r \<in> set (rows db) \<or> r = new_row now (Suc (seq db)) nm cat (insert_values_of a)"
      by auto
    then show ?thesis using reachable_step.IH new_row_ok [OF ok] by blast
  qed
qed

lemma apple_add:
  "handler ''t0'' empty_store ''idea_bot_add'' apple_args =
     (\<lparr>content = Text (''Added project '' @ [CHR 0x22] @ ''Apple'' @ [CHR 0x22] @ '' to database''),
       isError = False\<rparr>, apple_store)"
  by code_simp

lemma reachable_apple_store: "reachable apple_store"
proof -
  have "reachable (snd (handler ''t0'' empty_store ''idea_bot_add'' apple_args))"
    by (rule reachable_step [OF reachable_empty])
  then show ?thesis by (simp add: apple_add)
qed

subsection \<open>Defaults of a valid add\<close>

lemma or_default_num_in_range:
  assumes "in_range x lo hi" and "0 < lo"
  shows "or_default_num x d = with_default x d"
  using assms
  by (auto simp: in_range_def or_default_num_def with_default_def between_def split: option.splits)

lemma with_default_between:
  assumes "in_range x lo hi" and "between d lo hi"
  shows "between (with_default x d) lo hi"
  using assms by (auto simp: in_range_def with_default_def split: option.splits)

lemma or_default_str_notes: "or_default_str x [] = with_default x []"
  by (simp add: or_default_str_def with_default_def split: option.splits)

lemma or_default_str_phase:
  assumes "case x of None \<Rightarrow> True | Some ph \<Rightarrow> ph \<in> set phases"
  shows "or_default_str x ''Planning'' = with_default x ''Planning''"
    and "with_default x ''Planning'' \<in> set phases"
  using assms
  by (auto simp: or_default_str_def with_default_def phases_def split: option.splits)

lemma valid_add_values:
  assumes "valid_add a"
  shows "iv_priority_level (insert_values_of a) = with_default (arg_priority_level a) 1"
    and "iv_size_score (insert_values_of a) = with_default (arg_size_score a) 1"
    and "iv_business_impact (insert_values_of a) = with_default (arg_business_impact a) 1"
    and "iv_resource_type (insert_values_of a) = with_default (arg_resource_type a) 1"
    and "iv_risk_level (insert_values_of a) = with_default (arg_risk_level a) 1"
    and "iv_project_phase (insert_values_of a) = with_default (arg_project_phase a) ''Planning''"
    and "iv_notes (insert_values_of a) = with_default (arg_notes a) []"
    and "check_constraints (insert_values_of a) = None"
proof -
  from assms have r: "in_range (arg_priority_level a) 1 4" "in_range (arg_size_score a) 1 3"
    "in_range (arg_business_impact a) 1 4" "in_range (arg_resource_type a) 1 3"
    "in_range (arg_risk_level a) 1 3"
    and ph: "case arg_project_phase a of None \<Rightarrow> True | Some ph \<Rightarrow> ph \<in> set phases"
    by (simp_all add: valid_add_def)
  show p: "iv_priority_level (insert_values_of a) = with_default (arg_priority_level a) 1"
    by (simp add: insert_values_of_def or_default_num_in_range [OF r(1)])
  show s: "iv_size_score (insert_values_of a) = with_default (arg_size_score a) 1"
    by (simp add: insert_values_of_def or_default_num_in_range [OF r(2)])
  show b: "iv_business_impact (insert_values_of a) = with_default (arg_business_impact a) 1"
    by (simp add: insert_values_of_def or_default_num_in_range [OF r(3)])
  show t: "iv_resource_type (insert_values_of a) = with_default (arg_resource_type a) 1"
    by (simp add: insert_values_of_def or_default_num_in_range [OF r(4)])
  show k: "iv_risk_level (insert_values_of a) = with_default (arg_risk_level a) 1"
    by (simp add: insert_values_of_def or_default_num_in_range [OF r(5)])
  show f: "iv_project_phase (insert_values_of a) = with_default (arg_project_phase a) ''Planning''"
    by (simp add: insert_values_of_def or_default_str_phase(1) [OF ph])
  show "iv_notes (insert_values_of a) = with_default (arg_notes a) []"
    by (simp add: insert_values_of_def or_default_str_notes)
  have one: "between 1 1 4" "between 1 1 3" by (simp_all add: between_def)
  show "check_constraints (insert_values_of a) = None"
    unfolding check_constraints_None p s b t k f
    using with_default_between [OF r(1) one(1)] with_default_between [OF r(2) one(2)]
      with_default_between [OF r(3) one(1)] with_default_between [OF r(4) one(2)]
      with_default_between [OF r(5) one(2)] or_default_str_phase(2) [OF ph]
    by simp
qed

subsection \<open>A get by name\<close>

lemma where_clause_by_name:
  "n \<noteq> [] \<Longrightarrow>
     where_clause (by_name n) r = like (c_string (''%'' @ n @ ''%'')) (c_string (project_name r))"
  by (simp add: where_clause_def other_filters_def by_name_def no_args_def truthy_str_def
      truthy_num_def)

lemma within_limit_by_name: "utf8_length n \<le> 49998 \<Longrightarrow> name_filter_within_limit (by_name n)"
  by (simp add: name_filter_within_limit_def by_name_def no_args_def truthy_str_def)

subsection \<open>Sample calls\<close>

lemma pear_add:
  "handler ''t0'' apple_store ''idea_bot_add'' pear_args =
     (\<lparr>content = Text (''Added project '' @ [CHR 0x22] @ ''pear'' @ [CHR 0x22] @ '' to database''),
       isError = False\<rparr>, \<lparr>rows = [apple_row 1, pear_row 2], seq = 2\<rparr>)"
  by code_simp

lemma add_priority_five_rejected:
  "handler ''t0'' apple_store ''idea_bot_add'' (pear_args\<lparr>arg_priority_level := Some 5\<rparr>) =
     (\<lparr>content = ErrorText (CheckFailed ''priority_level''), isError = True\<rparr>, apple_store)"
  by code_simp

subsection \<open>Rejected inserts\<close>

text \<open>
  A scored argument that is present, not zero and outside its range fails the check of its
  column, whatever the other arguments are: the call reports an error and the table is the
  one it was.
\<close>

lemma rejected_score_or_default:
  "rejected_score x lo hi \<Longrightarrow> \<not> between (or_default_num x d) lo hi"
  by (auto simp: rejected_score_def or_default_num_def split: option.splits)

lemma add_out_of_range_rejected:
  assumes "rejected_score (arg_priority_level a) 1 4 \<or> rejected_score (arg_size_score a) 1 3 \<or>
     rejected_score (arg_business_impact a) 1 4 \<or> rejected_score (arg_resource_type a) 1 3 \<or>
     rejected_score (arg_risk_level a) 1 3"
  shows "isError (fst (handler now db ''idea_bot_add'' a)) \<and>
         snd (handler now db ''idea_bot_add'' a) = db"
proof -
  from assms have "check_constraints (insert_values_of a) \<noteq> None"
    unfolding check_constraints_None
    by (auto simp: insert_values_of_def dest: rejected_score_or_default)
  then obtain y where "check_constraints (insert_values_of a) = Some y" by auto
  then have "\<exists>e. db_insert now db (insert_values_of a) = Inl e"
    by (simp add: db_insert_def split: option.splits)
  then obtain e where "db_insert now db (insert_values_of a) = Inl e" ..
  then show ?thesis by (simp add: handler_add)
qed

subsection \<open>The tier of a stored row, the order of the artifact\<close>

lemma row_ok_tier: "row_ok r \<Longrightarrow> project_tier r \<in> {1, 2, 3}"
  by (simp add: row_ok_def)

lemma order_key_le: "order_key x \<le> order_key y \<longleftrightarrow> ordered_before x y"
  by (auto simp: order_key_def ordered_before_def)

lemma select_ordered_sorted: "sorted_wrt ordered_before (select_ordered db)"
proof -
  have "sorted (map order_key (sort_key order_key (rows db)))" by (rule sorted_sort_key)
  then show ?thesis
    by (simp add: select_ordered_def sorted_map order_key_le)
qed

lemma select_ordered_mset: "mset (select_ordered db) = mset (rows db)"
  by (simp add: select_ordered_def)

text \<open>Rows that agree on both keys keep the order of the table.\<close>

lemma select_ordered_stable:
  "filter (\<lambda>r. order_key r = k) (select_ordered db) = filter (\<lambda>r. order_key r = k) (rows db)"
  by (simp add: select_ordered_def sort_key_stable)

lemma artifact_view_type_supplied:
  "response_view_type (fst (handler now db ''idea_artifact'' (a\<lparr>arg_view_type := Some v\<rparr>))) = Some v"
  by (simp add: handler_artifact response_view_type_def)

section \<open>The claims\<close>

text \<open>
  C1. Every row the server has stored carries a \<open>total_score\<close> equal to the sum of its five
  scored columns and a \<open>project_tier\<close> of 1 when the total is at least 16, of 2 when it is
  between 11 and 15, and of 3 when it is below 11. The rows are those of any table the handler
  can produce from the empty one, whatever the calls and their arguments: both columns are
  computed by the insert, and no argument of a call reaches them.
\<close>

theorem stored_generated_columns:
  assumes "reachable db" and "r \<in> set (rows db)"
  shows "total_score r =
           priority_level r + size_score r + business_impact r + resource_type r + risk_level r \<and>
         (total_score r \<ge> 16 \<longrightarrow> project_tier r = 1) \<and>
         (11 \<le> total_score r \<and> total_score r < 16 \<longrightarrow> project_tier r = 2) \<and>
         (total_score r < 11 \<longrightarrow> project_tier r = 3)"
  using reachable_rows_ok [OF assms] by (simp add: row_ok_def)

text \<open>C1 at the row that an add with the scores 4, 3, 4, 3, 3 stores: total 17, tier 1.\<close>

theorem stored_generated_columns_witness:
  "reachable apple_store \<and> apple_row 1 \<in> set (rows apple_store) \<and>
   total_score (apple_row 1) = 17 \<and> project_tier (apple_row 1) = 1"
proof -
  have m: "apple_row 1 \<in> set (rows apple_store)" by (simp add: apple_store_def)
  have "priority_level (apple_row 1) + size_score (apple_row 1) + business_impact (apple_row 1)
      + resource_type (apple_row 1) + risk_level (apple_row 1) = 17"
    by (simp add: apple_row_def)
  with stored_generated_columns [OF reachable_apple_store m] reachable_apple_store m
  show ?thesis by simp
qed

text \<open>
  C2, as amended. For valid arguments whose project name takes at most 49998 bytes, an add
  followed by a get that filters on the same project name succeeds twice, and the get
  returns the rows already stored whose name the filter selects, followed by one new row.
  The columns of the new row are the supplied arguments, with 1 for an omitted score,
  \<open>Planning\<close> for an omitted phase and the empty text for omitted notes. The result is
  that one row alone when the filter selects no row stored before.
\<close>

theorem add_then_get_by_name:
  assumes "valid_add a" and "arg_project_name a = Some n" and "arg_category a = Some c"
    and "utf8_length n \<le> 49998"
  shows "isError (fst (handler now db ''idea_bot_add'' a)) = False \<and>
         handler now' (snd (handler now db ''idea_bot_add'' a)) ''idea_bot_get'' (by_name n) =
           (\<lparr>content = Ideas (filter (where_clause (by_name n)) (rows db) @
                [new_row now (Suc (seq db)) n c (insert_values_of a)]), isError = False\<rparr>,
            snd (handler now db ''idea_bot_add'' a)) \<and>
         new_row now (Suc (seq db)) n c (insert_values_of a) =
           \<lparr>row_id = Suc (seq db), project_name = n, category = c,
            priority_level = with_default (arg_priority_level a) 1,
            size_score = with_default (arg_size_score a) 1,
            business_impact = with_default (arg_business_impact a) 1,
            resource_type = with_default (arg_resource_type a) 1,
            risk_level = with_default (arg_risk_level a) 1,
            total_score = with_default (arg_priority_level a) 1 + with_default (arg_size_score a) 1
              + with_default (arg_business_impact a) 1 + with_default (arg_resource_type a) 1
              + with_default (arg_risk_level a) 1,
            project_tier = project_tier_expr (with_default (arg_priority_level a) 1)
              (with_default (arg_size_score a) 1) (with_default (arg_business_impact a) 1)
              (with_default (arg_resource_type a) 1) (with_default (arg_risk_level a) 1),
            project_phase = with_default (arg_project_phase a) ''Planning'',
            notes = with_default (arg_notes a) [],
            created_at = now, updated_at = now\<rparr>"
proof -
  let ?v = "insert_values_of a"
  let ?r = "new_row now (Suc (seq db)) n c ?v"
  have n: "n \<noteq> []" using assms(1,2) by (simp add: valid_add_def)
  have ins: "db_insert now db ?v = Inr \<lparr>rows = rows db @ [?r], seq = Suc (seq db)\<rparr>"
    using assms(2,3) valid_add_values(8) [OF assms(1)]
    by (intro db_insert_accepts) (simp_all add: insert_values_of_def)
  have add: "handler now db ''idea_bot_add'' a =
      (\<lparr>content = Text (''Added project '' @ [CHR 0x22] @ n @ [CHR 0x22] @ '' to database''),
        isError = False\<rparr>, \<lparr>rows = rows db @ [?r], seq = Suc (seq db)\<rparr>)"
    using assms(2) by (simp add: handler_add ins template_str_def)
  have "project_name ?r = n" by (simp add: new_row_def)
  then have sel: "where_clause (by_name n) ?r"
    using n like_self_c_string [of n] by (simp add: where_clause_by_name)
  have get: "handler now' \<lparr>rows = rows db @ [?r], seq = Suc (seq db)\<rparr> ''idea_bot_get'' (by_name n) =
      (\<lparr>content = Ideas (filter (where_clause (by_name n)) (rows db) @ [?r]), isError = False\<rparr>,
       \<lparr>rows = rows db @ [?r], seq = Suc (seq db)\<rparr>)"
    using sel by (simp add: handler_get_within_limit [OF within_limit_by_name [OF assms(4)]])
  have row: "?r = \<lparr>row_id = Suc (seq db), project_name = n, category = c,
            priority_level = with_default (arg_priority_level a) 1,
            size_score = with_default (arg_size_score a) 1,
            business_impact = with_default (arg_business_impact a) 1,
            resource_type = with_default (arg_resource_type a) 1,
            risk_level = with_default (arg_risk_level a) 1,
            total_score = with_default (arg_priority_level a) 1 + with_default (arg_size_score a) 1
              + with_default (arg_business_impact a) 1 + with_default (arg_resource_type a) 1
              + with_default (arg_risk_level a) 1,
            project_tier = project_tier_expr (with_default (arg_priority_level a) 1)
              (with_default (arg_size_score a) 1) (with_default (arg_business_impact a) 1)
              (with_default (arg_resource_type a) 1) (with_default (arg_risk_level a) 1),
            project_phase = with_default (arg_project_phase a) ''Planning'',
            notes = with_default (arg_notes a) [],
            created_at = now, updated_at = now\<rparr>"
    by (simp add: new_row_def valid_add_values [OF assms(1)] total_score_expr_def)
  show ?thesis
    apply (intro conjI)
      apply (simp add: add)
     apply (simp only: add snd_conv get)
    apply (rule row)
    done
qed

text \<open>
  C2 at an add of \<open>pear\<close> with every optional argument omitted, on a table that holds
  \<open>Apple\<close>: the get returns the one new row, with every score 1, total 5 and tier 3.
\<close>

theorem add_then_get_by_name_witness:
  "valid_add pear_args \<and> arg_project_name pear_args = Some ''pear'' \<and>
   arg_category pear_args = Some ''fruit'' \<and> utf8_length ''pear'' \<le> 49998 \<and>
   handler ''t1'' (snd (handler ''t0'' apple_store ''idea_bot_add'' pear_args)) ''idea_bot_get''
       (by_name ''pear'') =
     (\<lparr>content = Ideas [pear_row 2], isError = False\<rparr>,
      \<lparr>rows = [apple_row 1, pear_row 2], seq = 2\<rparr>)"
proof -
  have v: "valid_add pear_args" by code_simp
  have n: "arg_project_name pear_args = Some ''pear''" by code_simp
  have c: "arg_category pear_args = Some ''fruit''" by code_simp
  have l: "utf8_length ''pear'' \<le> 49998" by code_simp
  have none: "filter (where_clause (by_name ''pear'')) (rows apple_store) = []" by code_simp
  have row: "new_row ''t0'' (Suc (seq apple_store)) ''pear'' ''fruit'' (insert_values_of pear_args)
      = pear_row 2"
    by code_simp
  from add_then_get_by_name [OF v n c l, of "''t0''" apple_store "''t1''"]
  have "handler ''t1'' (snd (handler ''t0'' apple_store ''idea_bot_add'' pear_args)) ''idea_bot_get''
       (by_name ''pear'') =
     (\<lparr>content = Ideas (filter (where_clause (by_name ''pear'')) (rows apple_store) @
         [new_row ''t0'' (Suc (seq apple_store)) ''pear'' ''fruit'' (insert_values_of pear_args)]),
       isError = False\<rparr>, snd (handler ''t0'' apple_store ''idea_bot_add'' pear_args))"
    by (rule conjunct1 [OF conjunct2])
  with v n c l show ?thesis by (simp add: none row pear_add)
qed

text \<open>
  C2 as stated fails: on a table that already holds \<open>Apple\<close>, a second valid add of
  \<open>Apple\<close> followed by a get on \<open>Apple\<close> returns two rows, the old one and the new one.
\<close>

theorem add_then_get_by_name_counterexample:
  "valid_add apple_args \<and>
   response_rows (fst (handler ''t0'' (snd (handler ''t0'' apple_store ''idea_bot_add'' apple_args))
       ''idea_bot_get'' (by_name ''Apple''))) = [apple_row 1, apple_row 2]"
  by code_simp

text \<open>
  C3. An add whose \<open>priority_level\<close> is 0 is not rejected: \<open>0 || 1\<close> is 1, the row is
  stored with priority 1 and the call reports success. (Any other value outside the
  range of its column is rejected and stores nothing: \<open>add_out_of_range_rejected\<close>.)
\<close>

theorem add_priority_zero_is_stored:
  "handler ''t0'' empty_store ''idea_bot_add'' (pear_args\<lparr>arg_priority_level := Some 0\<rparr>) =
     (\<lparr>content = Text (''Added project '' @ [CHR 0x22] @ ''pear'' @ [CHR 0x22] @ '' to database''),
       isError = False\<rparr>, \<lparr>rows = [pear_row 1], seq = 1\<rparr>)"
  by code_simp




text \<open>
  C5, as amended. On a table the server has produced, a get whose name filter, if it has
  one, takes at most 49998 bytes, and whose \<open>project_tier\<close> is neither 0 nor one of 1, 2,
  3, succeeds and returns no row. A \<open>project_tier\<close> of 0 is falsy, whatever the table and
  the other arguments: the call returns what it returns without a \<open>project_tier\<close>.
\<close>

theorem get_tier_out_of_range:
  assumes "reachable db" and "name_filter_within_limit a" and "t \<notin> {0, 1, 2, 3}"
  shows "handler now db ''idea_bot_get'' (a\<lparr>arg_project_tier := Some t\<rparr>) =
           (\<lparr>content = Ideas [], isError = False\<rparr>, db) \<and>
         handler now' db' ''idea_bot_get'' (a'\<lparr>arg_project_tier := Some 0\<rparr>) =
           handler now' db' ''idea_bot_get'' (a'\<lparr>arg_project_tier := None\<rparr>)"
proof
  let ?a = "a\<lparr>arg_project_tier := Some t\<rparr>"
  have lim: "name_filter_within_limit ?a"
    using assms(2) by (simp add: name_filter_within_limit_def)
  have "\<not> where_clause ?a r" if "r \<in> set (rows db)" for r
  proof
    assume "where_clause ?a r"
    with assms(3) have "project_tier r = t"
      by (simp add: where_clause_def other_filters_def truthy_num_def)
    with row_ok_tier [OF reachable_rows_ok [OF assms(1) that]] assms(3) show False by auto
  qed
  then have "filter (where_clause ?a) (rows db) = []" by simp
  then show "handler now db ''idea_bot_get'' ?a = (\<lparr>content = Ideas [], isError = False\<rparr>, db)"
    by (simp add: handler_get_within_limit [OF lim])
next
  have "where_row (a'\<lparr>arg_project_tier := Some 0\<rparr>) = where_row (a'\<lparr>arg_project_tier := None\<rparr>)"
    by (rule where_row_tier_zero)
  then show "handler now' db' ''idea_bot_get'' (a'\<lparr>arg_project_tier := Some 0\<rparr>) =
      handler now' db' ''idea_bot_get'' (a'\<lparr>arg_project_tier := None\<rparr>)"
    by (rule handler_get_cong)
qed

text \<open>
  C5 on a table that holds one row: the tier 7 selects nothing, the tier 0 selects what
  the call without a tier selects.
\<close>

theorem get_tier_out_of_range_witness:
  "reachable apple_store \<and> name_filter_within_limit no_args \<and> (7::int) \<notin> {0, 1, 2, 3} \<and>
   handler ''t1'' apple_store ''idea_bot_get'' (no_args\<lparr>arg_project_tier := Some 7\<rparr>) =
     (\<lparr>content = Ideas [], isError = False\<rparr>, apple_store) \<and>
   handler ''t1'' apple_store ''idea_bot_get'' (no_args\<lparr>arg_project_tier := Some 0\<rparr>) =
     handler ''t1'' apple_store ''idea_bot_get'' (no_args\<lparr>arg_project_tier := None\<rparr>)"
proof -
  have t: "(7::int) \<notin> {0, 1, 2, 3}" by simp
  have l: "name_filter_within_limit no_args" by code_simp
  from get_tier_out_of_range [OF reachable_apple_store l t, of "''t1''" "''t1''" apple_store no_args]
    reachable_apple_store l t
  show ?thesis by simp
qed

text \<open>C5 as stated fails at the tier 0: the get returns the stored row.\<close>

theorem get_tier_zero_counterexample:
  "handler ''t1'' apple_store ''idea_bot_get'' (no_args\<lparr>arg_project_tier := Some 0\<rparr>) =
     (\<lparr>content = Ideas [apple_row 1], isError = False\<rparr>, apple_store)"
  by code_simp

text \<open>
  C6. An artifact call without \<open>view_type\<close> names no view type: the handler forwards
  \<open>args.view_type\<close> as it is, so the \<open>type\<close> of the instructions is \<open>undefined\<close>, not
  \<open>all\<close>. (A supplied view type is forwarded: \<open>artifact_view_type_supplied\<close>.)
\<close>

theorem artifact_view_type_omitted:
  "handler now db ''idea_artifact'' (a\<lparr>arg_view_type := None\<rparr>) =
     (\<lparr>content = Artifact (select_ordered db)
         \<lparr>vi_type = None, vi_style = ''futuristic-neon'',
          vi_elements = [''hexagonal-grid'', ''priority-matrix'', ''pipeline-view'',
            ''risk-heatmap'', ''resource-allocation'']\<rparr>,
       isError = False\<rparr>, db)"
  by (simp add: handler_artifact)

text \<open>
  C7. An artifact call succeeds and returns all the rows of the table, each as often as the
  table holds it, ordered by \<open>priority_level\<close> descending and, among equal priorities, by
  \<open>total_score\<close> descending. A second artifact call on the table the first one leaves
  returns the same list, rows that agree on both keys included.
\<close>

theorem artifact_order:
  "isError (fst (handler now db ''idea_artifact'' a)) = False \<and>
   mset (response_rows (fst (handler now db ''idea_artifact'' a))) = mset (rows db) \<and>
   sorted_wrt ordered_before (response_rows (fst (handler now db ''idea_artifact'' a))) \<and>
   response_rows (fst (handler now' (snd (handler now db ''idea_artifact'' a)) ''idea_artifact'' a')) =
     response_rows (fst (handler now db ''idea_artifact'' a))"
  by (simp add: handler_artifact response_rows_def select_ordered_sorted select_ordered_mset)

text \<open>C7 on a table that holds a priority 1 row before a priority 4 row.\<close>

theorem artifact_order_witness:
  "response_rows (fst (handler ''t1'' mixed_store ''idea_artifact'' no_args)) =
     [apple_row 2, pear_row 1] \<and>
   sorted_wrt ordered_before [apple_row 2, pear_row 1] \<and>
   response_rows (fst (handler ''t2'' (snd (handler ''t1'' mixed_store ''idea_artifact'' no_args))
     ''idea_artifact'' no_args)) = [apple_row 2, pear_row 1]"
proof -
  have r: "response_rows (fst (handler ''t1'' mixed_store ''idea_artifact'' no_args)) =
     [apple_row 2, pear_row 1]"
    by code_simp
  from artifact_order [of "''t1''" mixed_store no_args "''t2''" no_args]
  show ?thesis unfolding r by simp
qed

text \<open>
  C8. An artifact call on the empty table succeeds and returns no row. The summary of no
  rows is returned as well: both counts are 0, the average is \<open>0 / 0\<close>, which is \<open>NaN\<close>
  and not an exception, every breakdown is empty or 0.
\<close>

theorem empty_store_artifact_and_summary:
  "handler now empty_store ''idea_artifact'' a =
     (\<lparr>content = Artifact []
         \<lparr>vi_type = arg_view_type a, vi_style = ''futuristic-neon'',
          vi_elements = [''hexagonal-grid'', ''priority-matrix'', ''pipeline-view'',
            ''risk-heatmap'', ''resource-allocation'']\<rparr>,
       isError = False\<rparr>, empty_store) \<and>
   generateDashboard [] viewType =
     \<lparr>d_summary = \<lparr>total_count = 0, high_priority_count = 0, average_score = NaN\<rparr>,
      d_categories = Map.empty, d_phases = Map.empty, d_priority_projects = [],
      d_risk_levels = (0, 0, 0), d_resource_types = (0, 0, 0)\<rparr>"
  by (simp add: handler_artifact select_ordered_def empty_store_def generateDashboard_def js_div_def)

text \<open>
  C9. In a get, a \<open>project_tier\<close> of 0 and an empty \<open>project_name\<close>, \<open>category\<close> or
  \<open>project_phase\<close> are treated as absent: the call returns what it returns without that
  argument.
\<close>

theorem get_falsy_filter_is_absent:
  "handler now db ''idea_bot_get'' (a\<lparr>arg_project_tier := Some 0\<rparr>) =
     handler now db ''idea_bot_get'' (a\<lparr>arg_project_tier := None\<rparr>) \<and>
   handler now db ''idea_bot_get'' (a\<lparr>arg_project_name := Some []\<rparr>) =
     handler now db ''idea_bot_get'' (a\<lparr>arg_project_name := None\<rparr>) \<and>
   handler now db ''idea_bot_get'' (a\<lparr>arg_category := Some []\<rparr>) =
     handler now db ''idea_bot_get'' (a\<lparr>arg_category := None\<rparr>) \<and>
   handler now db ''idea_bot_get'' (a\<lparr>arg_project_phase := Some []\<rparr>) =
     handler now db ''idea_bot_get'' (a\<lparr>arg_project_phase := None\<rparr>)"
proof (intro conjI)
  have "where_row (a\<lparr>arg_project_tier := Some 0\<rparr>) = where_row (a\<lparr>arg_project_tier := None\<rparr>)"
    by (rule where_row_tier_zero)
  then show "handler now db ''idea_bot_get'' (a\<lparr>arg_project_tier := Some 0\<rparr>) =
     handler now db ''idea_bot_get'' (a\<lparr>arg_project_tier := None\<rparr>)"
    by (rule handler_get_cong)
next
  have "where_row (a\<lparr>arg_project_name := Some []\<rparr>) = where_row (a\<lparr>arg_project_name := None\<rparr>)"
    by (rule where_row_cong) (simp_all add: truthy_str_def other_filters_def fun_eq_iff)
  then show "handler now db ''idea_bot_get'' (a\<lparr>arg_project_name := Some []\<rparr>) =
     handler now db ''idea_bot_get'' (a\<lparr>arg_project_name := None\<rparr>)"
    by (rule handler_get_cong)
next
  have "where_row (a\<lparr>arg_category := Some []\<rparr>) = where_row (a\<lparr>arg_category := None\<rparr>)"
    by (rule where_row_cong) (simp_all add: truthy_str_def other_filters_def fun_eq_iff)
  then show "handler now db ''idea_bot_get'' (a\<lparr>arg_category := Some []\<rparr>) =
     handler now db ''idea_bot_get'' (a\<lparr>arg_category := None\<rparr>)"
    by (rule handler_get_cong)
next
  have "where_row (a\<lparr>arg_project_phase := Some []\<rparr>) = where_row (a\<lparr>arg_project_phase := None\<rparr>)"
    by (rule where_row_cong) (simp_all add: truthy_str_def other_filters_def fun_eq_iff)
  then show "handler now db ''idea_bot_get'' (a\<lparr>arg_project_phase := Some []\<rparr>) =
     handler now db ''idea_bot_get'' (a\<lparr>arg_project_phase := None\<rparr>)"
    by (rule handler_get_cong)
qed

text \<open>
  C10. Neither a get nor an artifact call changes the table: the store after the call is
  the store before it.
\<close>

theorem queries_leave_store:
  "snd (handler now db ''idea_bot_get'' a) = db \<and> snd (handler now db ''idea_artifact'' a) = db"
  by (simp add: handler_get handler_artifact split: sum.splits)

end
